theory Spec2Isabelle
  imports Main "HOL-Library.AList"
begin

section \<open>Dynamic values\<close>

text \<open>
  Property bags, query parameters and query rows are Go values of type
  \<^verbatim>\<open>interface{}\<close>. The model keeps the shapes the code tells apart: the nil
  interface, \<^verbatim>\<open>[]interface{}\<close> (\<open>VList\<close>) and \<^verbatim>\<open>map[string]interface{}\<close> (\<open>VMap\<close>),
  which are the shapes in which the driver delivers lists and maps. Every other
  Go value is passed on by the code as it is: the scalars; \<open>VOther\<close>, a scalar
  of another type (a float, a time) given by its printed form; \<open>VSlice t xs\<close>, a
  slice of any other type, such as \<^verbatim>\<open>[]float64\<close>, \<^verbatim>\<open>[]string\<close> or
  \<^verbatim>\<open>[]map[string]interface{}\<close>, with the name \<open>t\<close> of its element type; and
  \<open>VStruct t fs\<close>, a struct such as the driver's \<^verbatim>\<open>neo4j.Node\<close>, with the name of
  its type and its fields (the \<^verbatim>\<open>Props\<close> of a node are a map).
  A Go map is written as the list of its entries; a well-formed map has pairwise
  different keys. Go does not fix the order in which a map is traversed; the
  model traverses the entries in list order.
  A nil slice and an empty slice are both \<open>VList []\<close>, a nil map and an empty
  map are both \<open>VMap []\<close>: the code only takes their length, ranges over them
  and reads keys, which does not tell them apart, and either one stored in an
  \<^verbatim>\<open>interface{}\<close> is different from the nil interface \<open>VNil\<close>.
\<close>

datatype val =
    VNil
  | VBool bool
  | VInt int
  | VStr string
  | VOther string
  | VList "val list"
  | VMap "(string \<times> val) list"
  | VSlice string "val list"
  | VStruct string "(string \<times> val) list"

type_synonym props = "(string \<times> val) list"

section \<open>Entity model (package graphs)\<close>

record Node =
  ID :: string
  Type :: string
  Properties :: props

record Relationship =
  Source :: Node
  Target :: Node
  RelType :: string
  RelProperties :: props

text \<open>
  \<^verbatim>\<open>schema.Document\<close> of langchaingo: the page text and its metadata (its score
  is not read anywhere in this repository).
\<close>

record Document =
  PageContent :: string
  Metadata :: props

record GraphDocument =
  Nodes :: "Node list"
  Relationships :: "Relationship list"
  SourceDoc :: Document

record RelationshipIdentifier =
  SourceID :: string
  TargetID :: string
  IdType :: string

definition GetIdentifier :: "Relationship \<Rightarrow> RelationshipIdentifier" where
  "GetIdentifier r =
     \<lparr>SourceID = ID (Source r), TargetID = ID (Target r), IdType = RelType r\<rparr>"

definition AddNode :: "GraphDocument \<Rightarrow> Node \<Rightarrow> GraphDocument" where
  "AddNode gd node = gd\<lparr>Nodes := Nodes gd @ [node]\<rparr>"

definition AddRelationship :: "GraphDocument \<Rightarrow> Relationship \<Rightarrow> GraphDocument" where
  "AddRelationship gd rel = gd\<lparr>Relationships := Relationships gd @ [rel]\<rparr>"

text \<open>The position at which a \<^verbatim>\<open>for i, x := range xs\<close> loop first meets an element
  that passes its test.\<close>

primrec firstIndex :: "('a \<Rightarrow> bool) \<Rightarrow> 'a list \<Rightarrow> nat option" where
  "firstIndex P [] = None"
| "firstIndex P (x # xs) = (if P x then Some 0 else map_option Suc (firstIndex P xs))"

definition removeRelationshipsByNodeID :: "string \<Rightarrow> GraphDocument \<Rightarrow> GraphDocument" where
  "removeRelationshipsByNodeID nodeID gd =
     gd\<lparr>Relationships :=
          filter (\<lambda>rel. ID (Source rel) \<noteq> nodeID \<and> ID (Target rel) \<noteq> nodeID)
            (Relationships gd)\<rparr>"

definition RemoveNode :: "string \<Rightarrow> GraphDocument \<Rightarrow> bool \<times> GraphDocument" where
  "RemoveNode nodeID gd =
     (case firstIndex (\<lambda>node. ID node = nodeID) (Nodes gd) of
        Some i \<Rightarrow>
          (True, removeRelationshipsByNodeID nodeID
                   (gd\<lparr>Nodes := take i (Nodes gd) @ drop (i + 1) (Nodes gd)\<rparr>))
      | None \<Rightarrow> (False, gd))"

text \<open>\<^verbatim>\<open>FindNode\<close> and \<^verbatim>\<open>FindRelationship\<close> return a pointer to the first match, or
  nil; the model returns the position of that element.\<close>

definition FindNode :: "GraphDocument \<Rightarrow> string \<Rightarrow> nat option" where
  "FindNode gd nodeID = firstIndex (\<lambda>node. ID node = nodeID) (Nodes gd)"

definition FindRelationship :: "GraphDocument \<Rightarrow> string \<Rightarrow> string \<Rightarrow> string \<Rightarrow> nat option" where
  "FindRelationship gd sourceID targetID relType =
     firstIndex (\<lambda>rel. ID (Source rel) = sourceID \<and> ID (Target rel) = targetID
                        \<and> RelType rel = relType) (Relationships gd)"

definition NodeExists :: "GraphDocument \<Rightarrow> string \<Rightarrow> bool" where
  "NodeExists gd nodeID = (FindNode gd nodeID \<noteq> None)"

definition RelationshipExists :: "GraphDocument \<Rightarrow> string \<Rightarrow> string \<Rightarrow> string \<Rightarrow> bool" where
  "RelationshipExists gd sourceID targetID relType =
     (FindRelationship gd sourceID targetID relType \<noteq> None)"

definition Merge :: "GraphDocument \<Rightarrow> GraphDocument \<Rightarrow> GraphDocument" where
  "Merge gd other =
     (let gd1 = fold (\<lambda>node g. if \<not> NodeExists g (ID node) then AddNode g node else g)
                  (Nodes other) gd
      in fold (\<lambda>rel g.
                 if \<not> RelationshipExists g (ID (Source rel)) (ID (Target rel)) (RelType rel)
                 then AddRelationship g rel else g)
           (Relationships other) gd1)"

section \<open>Value sanitizer (package neo4j)\<close>

definition LIST_LIMIT :: nat where
  "LIST_LIMIT = 128"

text \<open>The result \<open>VNil\<close> is Go's nil interface: the caller's test
  \<^verbatim>\<open>sanitized != nil\<close> drops exactly these.\<close>

fun valueSanitize :: "val \<Rightarrow> val" where
  "valueSanitize (VMap kvs) =
     VMap (filter (\<lambda>(key, sanitized). sanitized \<noteq> VNil)
             (map (\<lambda>(key, value). (key, valueSanitize value)) kvs))"
| "valueSanitize (VList xs) =
     (if LIST_LIMIT \<le> length xs then VNil
      else VList (filter (\<lambda>sanitized. sanitized \<noteq> VNil) (map valueSanitize xs)))"
| "valueSanitize v = v"

subsection \<open>Vocabulary for the sanitizer's properties\<close>




definition embedding :: val where
  "embedding = VList (replicate 128 (VInt 0))"




definition sampleRecord :: val where
  "sampleRecord =
     VMap [(''name'', VStr ''Alice''),
           (''embedding'', embedding),
           (''tags'', VList [VStr ''a'', VNil, VStr ''b'']),
           (''vectors'', VList [embedding, embedding]),
           (''none'', VList []),
           (''nested'', VMap [(''inner'', VList [VInt 1, embedding, VInt 2])])]"

definition sampleSanitized :: val where
  "sampleSanitized =
     VMap [(''name'', VStr ''Alice''),
           (''tags'', VList [VStr ''a'', VStr ''b'']),
           (''vectors'', VList []),
           (''none'', VList []),
           (''nested'', VMap [(''inner'', VList [VInt 1, VInt 2])])]"

text \<open>The entries of a map value.\<close>

fun entries :: "val \<Rightarrow> props" where
  "entries (VMap kvs) = kvs"
| "entries v = []"


subsection \<open>Vocabulary for the document properties\<close>

text \<open>\<open>firstNew k old xs\<close>: the elements of \<open>xs\<close>, in order, whose key \<open>k\<close> occurs
  neither in \<open>old\<close> nor earlier in \<open>xs\<close>.\<close>

definition firstNew :: "('a \<Rightarrow> 'k) \<Rightarrow> 'a list \<Rightarrow> 'a list \<Rightarrow> 'a list" where
  "firstNew k old xs =
     map snd (filter (\<lambda>(i, x). k x \<notin> k ` set old \<and> k x \<notin> k ` set (take i xs))
                (enumerate 0 xs))"

text \<open>Sample documents.\<close>

definition alice :: Node where
  "alice = \<lparr>ID = ''1'', Type = ''Person'', Properties = [(''a'', VInt 1)]\<rparr>"

definition alice2 :: Node where
  "alice2 = \<lparr>ID = ''1'', Type = ''Person'', Properties = [(''b'', VInt 2)]\<rparr>"

definition bob :: Node where
  "bob = \<lparr>ID = ''2'', Type = ''Person'', Properties = [(''name'', VStr ''Bob'')]\<rparr>"

definition rob :: Node where
  "rob = \<lparr>ID = ''2'', Type = ''Person'', Properties = [(''name'', VStr ''Rob'')]\<rparr>"

definition carol :: Node where
  "carol = \<lparr>ID = ''3'', Type = ''Person'', Properties = []\<rparr>"

definition knows :: "Node \<Rightarrow> Node \<Rightarrow> Relationship" where
  "knows s t = \<lparr>Source = s, Target = t, RelType = ''KNOWS'', RelProperties = []\<rparr>"

definition noSource :: Document where
  "noSource = \<lparr>PageContent = [], Metadata = []\<rparr>"

definition docTriangle :: GraphDocument where
  "docTriangle =
     \<lparr>Nodes = [alice, bob, carol],
      Relationships = [knows alice bob, knows bob carol, knows carol alice, knows bob bob],
      SourceDoc = noSource\<rparr>"

definition sampleA :: GraphDocument where
  "sampleA = \<lparr>Nodes = [alice], Relationships = [knows alice alice], SourceDoc = noSource\<rparr>"

definition sampleB :: GraphDocument where
  "sampleB =
     \<lparr>Nodes = [alice2, bob, carol],
      Relationships = [knows alice2 alice2, knows alice2 bob],
      SourceDoc = noSource\<rparr>"

definition sampleDup :: GraphDocument where
  "sampleDup = \<lparr>Nodes = [alice2, bob, rob], Relationships = [], SourceDoc = noSource\<rparr>"

section \<open>Store options (package graphs)\<close>

datatype MergeMode = MergeModeCreate | MergeModeUpdate | MergeModeUpsert | MergeModeReplace

text \<open>The integer fields are Go \<^verbatim>\<open>int\<close>s. The modelled code only compares them and
  adds a batch size to an index below the length of a slice, which cannot
  overflow, so they are unbounded integers here.\<close>

record Options =
  IncludeSource :: bool
  BatchSize :: int
  Timeout :: int
  MergeMode :: MergeMode
  CascadeDelete :: bool
  IncludeProperties :: "string list"
  ExcludeProperties :: "string list"
  Limit :: int
  Offset :: int

type_synonym Option = "Options \<Rightarrow> Options"

definition NewOptions :: Options where
  "NewOptions =
     \<lparr>IncludeSource = False, BatchSize = 100, Timeout = 0, MergeMode = MergeModeUpsert,
      CascadeDelete = False, IncludeProperties = [], ExcludeProperties = [],
      Limit = 0, Offset = 0\<rparr>"

definition WithIncludeSource :: "bool \<Rightarrow> Option" where
  "WithIncludeSource include opts = opts\<lparr>IncludeSource := include\<rparr>"

definition WithBatchSize :: "int \<Rightarrow> Option" where
  "WithBatchSize sz opts = opts\<lparr>BatchSize := sz\<rparr>"

definition WithMergeMode :: "MergeMode \<Rightarrow> Option" where
  "WithMergeMode mode opts = opts\<lparr>MergeMode := mode\<rparr>"

definition WithCascadeDelete :: "bool \<Rightarrow> Option" where
  "WithCascadeDelete cascade opts = opts\<lparr>CascadeDelete := cascade\<rparr>"

text \<open>\<^verbatim>\<open>opts := graphs.NewOptions(); for _, opt := range options { opt(opts) }\<close>\<close>

definition applyOptions :: "Option list \<Rightarrow> Options" where
  "applyOptions options = fold (\<lambda>opt opts. opt opts) options NewOptions"

section \<open>The Neo4j store (package neo4j)\<close>

subsection \<open>The driver, errors and strings\<close>

text \<open>
  The Neo4j driver is outside the repository. A call of \<^verbatim>\<open>session.Run\<close> either
  fails with a driver error (kept as its message) or yields the rows that the
  result delivers and the error, if any, that ended the stream; it may change
  the database, whose state has the type \<open>'b\<close>. The context's deadline is passed
  along (\<open>None\<close> when the code sets none). Opening and closing a session has no
  effect of its own.

  The other parameters are library and rendering functions whose results the
  modelled code only passes on: the hexadecimal MD5 digest, \<^verbatim>\<open>strings.ToUpper\<close>,
  and \<^verbatim>\<open>formatSchema\<close>, whose text depends on Go's map iteration order.
\<close>

record result =
  rows :: "props list"
  streamErr :: "string option"

record Schema =
  node_props :: props
  rel_props :: props
  relationships :: "props list"
  metadata :: "(string \<times> props list) list"

record 'b world =
  sessionRun :: "int option \<Rightarrow> string \<Rightarrow> val \<Rightarrow> 'b \<Rightarrow> (string + result) \<times> 'b"
  md5hex :: "string \<Rightarrow> string"
  toUpper :: "string \<Rightarrow> string"
  formatSchema :: "bool \<Rightarrow> Schema \<Rightarrow> string"

text \<open>
  Errors: the sentinel for a missing driver, an error of the driver, and the
  results of \<^verbatim>\<open>fmt.Errorf\<close>. \<open>ErrQueryExecution m\<close> is \<^verbatim>\<open>fmt.Errorf("%w: %v", ErrQueryExecution, err)\<close>
  and \<open>ErrAPOCNotAvailable m\<close> is the error built by \<^verbatim>\<open>wrapAPOCError\<close>, with \<open>m\<close> the
  text of \<^verbatim>\<open>err\<close>; \<open>Wrapped p e\<close> is \<^verbatim>\<open>fmt.Errorf(p + ": %w", e)\<close>; \<open>Plain m\<close> is an
  error made from a message alone.
\<close>

datatype error =
    ErrDriverNotInitialized
  | DriverError string
  | ErrQueryExecution string
  | ErrAPOCNotAvailable string
  | Wrapped string error
  | Plain string

definition apocGuidance :: string where
  "apocGuidance =
     [CHR 0x0A, CHR 0x0A] @ ''APOC procedures are not available. Please ensure:'' @ [CHR 0x0A] @
     ''1. APOC plugin is installed in your Neo4j instance'' @ [CHR 0x0A] @
     ''2. APOC procedures are allowed in Neo4j configuration'' @ [CHR 0x0A] @
     ''3. The procedures 'apoc.meta.data', 'apoc.merge.node', and 'apoc.merge.relationship' are accessible'' @ [CHR 0x0A] @
     ''Visit https://neo4j.com/labs/apoc/ for installation instructions''"

fun errorText :: "error \<Rightarrow> string" where
  "errorText ErrDriverNotInitialized = ''neo4j driver not initialized''"
| "errorText (DriverError m) = m"
| "errorText (ErrQueryExecution m) = ''failed to execute query: '' @ m"
| "errorText (ErrAPOCNotAvailable m) = ''APOC procedures not available: '' @ m @ apocGuidance"
| "errorText (Wrapped p e) = p @ '': '' @ errorText e"
| "errorText (Plain m) = m"

primrec strContains :: "string \<Rightarrow> string \<Rightarrow> bool" where
  "strContains [] substr = (substr = [])"
| "strContains (c # cs) substr =
     (take (length substr) (c # cs) = substr \<or> strContains cs substr)"

definition isAPOCError :: "error \<Rightarrow> bool" where
  "isAPOCError err =
     (let errorStr = errorText err
      in strContains errorStr ''Neo.ClientError.Procedure.ProcedureNotFound'' \<or>
         strContains errorStr ''apoc.meta.data'' \<or>
         strContains errorStr ''apoc.merge.node'' \<or>
         strContains errorStr ''apoc.merge.relationship'')"

definition wrapAPOCError :: "error \<Rightarrow> error" where
  "wrapAPOCError err =
     (if \<not> isAPOCError err then err else ErrAPOCNotAvailable (errorText err))"

definition cleanString :: "string \<Rightarrow> string" where
  "cleanString text = filter (\<lambda>c. c \<noteq> CHR 0x60) text"

definition replaceSpaces :: "string \<Rightarrow> string" where
  "replaceSpaces text = map (\<lambda>c. if c = CHR '' '' then CHR ''_'' else c) text"

fun joinWith :: "string \<Rightarrow> string list \<Rightarrow> string" where
  "joinWith sep [] = []"
| "joinWith sep [p] = p"
| "joinWith sep (p # ps) = p @ sep @ joinWith sep ps"

definition generateDocumentID :: "'b world \<Rightarrow> Document \<Rightarrow> string" where
  "generateDocumentID w doc =
     (case map_of (Metadata doc) ''id'' of
        Some (VStr idStr) \<Rightarrow> if idStr \<noteq> [] then idStr else md5hex w (PageContent doc)
      | _ \<Rightarrow> md5hex w (PageContent doc))"

definition BASE_ENTITY_LABEL :: string where
  "BASE_ENTITY_LABEL = ''__Entity__''"

text \<open>The loop \<^verbatim>\<open>for _, x := range xs { if err := f(x); err != nil { return err } }\<close>
  followed by \<^verbatim>\<open>return nil\<close>.\<close>

fun forEach :: "('a \<Rightarrow> 'b \<Rightarrow> error option \<times> 'b) \<Rightarrow> 'a list \<Rightarrow> 'b \<Rightarrow> error option \<times> 'b" where
  "forEach f [] b = (None, b)"
| "forEach f (x # xs) b =
     (case f x b of (Some err, b') \<Rightarrow> (Some err, b') | (None, b') \<Rightarrow> forEach f xs b')"

subsection \<open>The store and its \<^verbatim>\<open>Query\<close>\<close>

text \<open>The fields of the store that the modelled code reads or writes; \<open>driver\<close>
  tells whether the driver is set (not nil). The mutex is not modelled.\<close>

record Neo4j =
  driver :: bool
  database :: string
  sanitize :: bool
  enhancedSchema :: bool
  baseEntityLabel :: bool
  timeout :: int
  schemaCache :: string
  structuredSchema :: Schema

record queryResult =
  records :: "props list"
  summaryQuery :: string
  summaryParameters :: val

definition sanitizeRecords :: "props list \<Rightarrow> props list" where
  "sanitizeRecords recs =
     concat (map (\<lambda>record. case valueSanitize (VMap record) of
                               VMap sanitizedMap \<Rightarrow> [sanitizedMap]
                             | _ \<Rightarrow> []) recs)"

definition Query :: "'b world \<Rightarrow> Neo4j \<Rightarrow> string \<Rightarrow> val \<Rightarrow> 'b \<Rightarrow> (error + queryResult) \<times> 'b" where
  "Query w n query params b =
     (if \<not> driver n then (Inl ErrDriverNotInitialized, b)
      else case sessionRun w (if timeout n > 0 then Some (timeout n) else None) query params b of
          (Inl msg, b') \<Rightarrow> (Inl (ErrQueryExecution msg), b')
        | (Inr res, b') \<Rightarrow>
            (case streamErr res of
               Some msg \<Rightarrow> (Inl (ErrQueryExecution msg), b')
             | None \<Rightarrow>
                 (Inr \<lparr>records = (if sanitize n then sanitizeRecords (rows res) else rows res),
                       summaryQuery = query, summaryParameters = params\<rparr>, b')))"

subsection \<open>Batch import of graph documents\<close>

text \<open>Query parameters are Go maps (\<open>VMap\<close>) holding strings, maps and typed
  slices (\<open>VSlice\<close>); nil parameters are \<open>VNil\<close>.\<close>

definition ensureBaseEntityConstraint :: "'b world \<Rightarrow> Neo4j \<Rightarrow> 'b \<Rightarrow> error option \<times> 'b" where
  "ensureBaseEntityConstraint w n b =
     (if \<not> baseEntityLabel n then (None, b)
      else
        (let constraintQuery =
               ''SHOW CONSTRAINTS YIELD name, labelsOrTypes, properties WHERE $label IN labelsOrTypes AND $property IN properties''
         in case Query w n constraintQuery
                   (VMap [(''label'', VStr BASE_ENTITY_LABEL), (''property'', VStr ''id'')]) b of
              (res, b1) \<Rightarrow>
                if (case res of Inl err \<Rightarrow> False | Inr result \<Rightarrow> length (records result) > 0)
                then (None, b1)
                else
                  (let createConstraintQuery =
                         ''CREATE CONSTRAINT IF NOT EXISTS FOR (b:`'' @ BASE_ENTITY_LABEL @
                         ''`) REQUIRE b.id IS UNIQUE''
                   in case Query w n createConstraintQuery VNil b1 of
                        (Inl err, b2) \<Rightarrow> (Some err, b2)
                      | (Inr _, b2) \<Rightarrow> (None, b2))))"

definition getNodeImportQuery :: "Neo4j \<Rightarrow> bool \<Rightarrow> string" where
  "getNodeImportQuery n includeSource =
     joinWith '' ''
       ((if includeSource
         then [''MERGE (d:Document {id: $document_id})'',
               ''SET d.text = $document_text'',
               ''SET d += $document_metadata'',
               ''WITH d'']
         else []) @
        [''UNWIND $nodes AS node''] @
        (if baseEntityLabel n
         then [''MERGE (source:`'' @ BASE_ENTITY_LABEL @ ''` {id: node.id})'',
               ''SET source += node.properties'',
               (if includeSource then ''WITH source, node, d'' else ''WITH source, node''),
               ''CALL apoc.create.addLabels(source, [node.type]) YIELD node AS n'']
         else (if includeSource then [''WITH d, node''] else []) @
              [''CALL apoc.merge.node([node.type], {id: node.id}, node.properties, {}) YIELD node AS n'']) @
        (if includeSource then [''WITH d, n'', ''MERGE (d)-[:MENTIONS]->(n)''] else []) @
        [''RETURN count(n) AS nodes_created''])"

definition getRelImportQuery :: "Neo4j \<Rightarrow> string" where
  "getRelImportQuery n =
     (if baseEntityLabel n
      then ''UNWIND $relationships AS rel '' @
           ''MERGE (source:'' @ BASE_ENTITY_LABEL @ '' {id: rel.source}) '' @
           ''MERGE (target:'' @ BASE_ENTITY_LABEL @ '' {id: rel.target}) '' @
           ''WITH source, target, rel '' @
           ''CALL apoc.merge.relationship(source, rel.type, {}, rel.properties, target) YIELD rel AS r '' @
           ''RETURN count(r) AS relationships_created''
      else ''UNWIND $relationships AS rel '' @
           ''CALL apoc.merge.node([rel.source_label], {id: rel.source}, {}, {}) YIELD node AS source '' @
           ''CALL apoc.merge.node([rel.target_label], {id: rel.target}, {}, {}) YIELD node AS target '' @
           ''CALL apoc.merge.relationship(source, rel.type, {}, rel.properties, target) YIELD rel AS r '' @
           ''RETURN count(r) AS relationships_created'')"

definition nodeImportParams :: "'b world \<Rightarrow> Options \<Rightarrow> GraphDocument \<Rightarrow> val" where
  "nodeImportParams w opts doc =
     (let nodeData = map (\<lambda>node. VMap [(''id'', VStr (ID node)),
                                         (''type'', VStr (cleanString (Type node))),
                                         (''properties'', VMap (Properties node))])
                       (Nodes doc)
      in VMap ([(''nodes'', VSlice ''map[string]interface{}'' nodeData)] @
               (if IncludeSource opts
                then [(''document_id'', VStr (generateDocumentID w (SourceDoc doc))),
                      (''document_text'', VStr (PageContent (SourceDoc doc))),
                      (''document_metadata'', VMap (Metadata (SourceDoc doc)))]
                else [])))"

definition importNodes :: "'b world \<Rightarrow> Neo4j \<Rightarrow> Options \<Rightarrow> GraphDocument \<Rightarrow> 'b \<Rightarrow> error option \<times> 'b" where
  "importNodes w n opts doc b =
     (if length (Nodes doc) = 0 then (None, b)
      else case ensureBaseEntityConstraint w n b of
          (Some err, b1) \<Rightarrow> (Some (Wrapped ''failed to ensure base entity constraint'' err), b1)
        | (None, b1) \<Rightarrow>
            (case Query w n (getNodeImportQuery n (IncludeSource opts))
                    (nodeImportParams w opts doc) b1 of
               (Inl err, b2) \<Rightarrow> (if isAPOCError err then Some (wrapAPOCError err) else Some err, b2)
             | (Inr _, b2) \<Rightarrow> (None, b2)))"

definition relImportParams :: "'b world \<Rightarrow> GraphDocument \<Rightarrow> val" where
  "relImportParams w doc =
     (let relData = map (\<lambda>rel. VMap [(''source'', VStr (ID (Source rel))),
                                       (''source_label'', VStr (cleanString (Type (Source rel)))),
                                       (''target'', VStr (ID (Target rel))),
                                       (''target_label'', VStr (cleanString (Type (Target rel)))),
                                       (''type'', VStr (cleanString (replaceSpaces
                                                          (toUpper w (RelType rel))))),
                                       (''properties'', VMap (RelProperties rel))])
                      (Relationships doc)
      in VMap [(''relationships'', VSlice ''map[string]interface{}'' relData)])"

definition importRelationships :: "'b world \<Rightarrow> Neo4j \<Rightarrow> Options \<Rightarrow> GraphDocument \<Rightarrow> 'b \<Rightarrow> error option \<times> 'b" where
  "importRelationships w n opts doc b =
     (if length (Relationships doc) = 0 then (None, b)
      else case Query w n (getRelImportQuery n) (relImportParams w doc) b of
          (Inl err, b1) \<Rightarrow> (if isAPOCError err then Some (wrapAPOCError err) else Some err, b1)
        | (Inr _, b1) \<Rightarrow> (None, b1))"

definition processBatch :: "'b world \<Rightarrow> Neo4j \<Rightarrow> Options \<Rightarrow> GraphDocument list \<Rightarrow> 'b \<Rightarrow> error option \<times> 'b" where
  "processBatch w n opts docs b =
     (case forEach (importNodes w n opts) docs b of
        (Some err, b1) \<Rightarrow> (Some err, b1)
      | (None, b1) \<Rightarrow> forEach (importRelationships w n opts) docs b1)"

text \<open>The batch size that \<^verbatim>\<open>AddGraphDocument\<close> computes before its loop.\<close>

definition batchSize :: "Options \<Rightarrow> int" where
  "batchSize opts = (if BatchSize opts \<le> 0 then 100 else BatchSize opts)"

text \<open>The loop \<^verbatim>\<open>for i := 0; i < len(docs); i += batchSize\<close>, from the index \<open>i\<close>;
  \<open>batchSize opts\<close> is the value of the code's local variable \<^verbatim>\<open>batchSize\<close>. It is
  positive, so the loop ends.\<close>

function batchLoop :: "'b world \<Rightarrow> Neo4j \<Rightarrow> Options \<Rightarrow> GraphDocument list \<Rightarrow> int \<Rightarrow> 'b \<Rightarrow> error option \<times> 'b" where
  "batchLoop w n opts docs i b =
     (if i < int (length docs)
      then
        (let end = (if i + batchSize opts > int (length docs) then int (length docs)
                    else i + batchSize opts);
             batch = take (nat (end - i)) (drop (nat i) docs)
         in case processBatch w n opts batch b of
              (Some err, b') \<Rightarrow> (Some err, b')
            | (None, b') \<Rightarrow> batchLoop w n opts docs (i + batchSize opts) b')
      else (None, b))"
  by pat_completeness auto
termination
proof (relation "measure (\<lambda>(w, n, opts, docs, i, b). nat (int (length docs) - i))")
  show "wf (measure (\<lambda>(w, n, opts, docs, i, b). nat (int (length docs) - i)))"
    by simp
next
  fix w :: "'b world" and n opts and docs :: "GraphDocument list" and i :: int and b b' :: 'b
  assume "i < int (length docs)"
  moreover have "0 < batchSize opts"
    by (simp add: batchSize_def)
  ultimately show "((w, n, opts, docs, i + batchSize opts, b'), (w, n, opts, docs, i, b))
        \<in> measure (\<lambda>(w, n, opts, docs, i, b). nat (int (length docs) - i))"
    by simp
qed

declare batchLoop.simps [simp del]

definition AddGraphDocument :: "'b world \<Rightarrow> Neo4j \<Rightarrow> GraphDocument list \<Rightarrow> Option list \<Rightarrow> 'b \<Rightarrow> error option \<times> 'b" where
  "AddGraphDocument w n docs options b =
     (if \<not> driver n then (Some ErrDriverNotInitialized, b)
      else batchLoop w n (applyOptions options) docs 0 b)"

subsection \<open>Adding, updating and removing single entities\<close>

definition nodeAddQuery :: "Neo4j \<Rightarrow> Options \<Rightarrow> Node \<Rightarrow> string" where
  "nodeAddQuery n opts node =
     (case MergeMode opts of
        MergeModeCreate \<Rightarrow>
          (if baseEntityLabel n
           then ''CREATE (n:`'' @ Type node @ ''`:`'' @ BASE_ENTITY_LABEL @
                ''` {id: $id}) SET n += $properties''
           else ''CREATE (n:`'' @ Type node @ ''` {id: $id}) SET n += $properties'')
      | MergeModeUpdate \<Rightarrow>
          ''MATCH (n:`'' @ Type node @ ''` {id: $id}) SET n += $properties''
      | MergeModeReplace \<Rightarrow>
          (if baseEntityLabel n
           then ''MERGE (n:`'' @ Type node @ ''`:`'' @ BASE_ENTITY_LABEL @
                ''` {id: $id}) SET n = $properties''
           else ''MERGE (n:`'' @ Type node @ ''` {id: $id}) SET n = $properties'')
      | MergeModeUpsert \<Rightarrow>
          (if baseEntityLabel n
           then ''MERGE (n:`'' @ Type node @ ''`:`'' @ BASE_ENTITY_LABEL @
                ''` {id: $id}) SET n += $properties''
           else ''MERGE (n:`'' @ Type node @ ''` {id: $id}) SET n += $properties''))"

definition AddNodes :: "'b world \<Rightarrow> Neo4j \<Rightarrow> Node list \<Rightarrow> Option list \<Rightarrow> 'b \<Rightarrow> error option \<times> 'b" where
  "AddNodes w n nodes options b =
     (if \<not> driver n then (Some ErrDriverNotInitialized, b)
      else
        (let opts = applyOptions options
         in forEach
              (\<lambda>node b.
                 (let query = nodeAddQuery n opts node;
                      params = VMap [(''id'', VStr (ID node)),
                                     (''properties'', VMap (Properties node))]
                  in case sessionRun w None query params b of
                       (Inl msg, b') \<Rightarrow>
                         (Some (Wrapped (''failed to add node '' @ ID node) (DriverError msg)), b')
                     | (Inr _, b') \<Rightarrow> (None, b')))
              nodes b))"

text \<open>The query texts keep the source's line breaks and tabs.\<close>

definition relationshipAddQuery :: "Options \<Rightarrow> Relationship \<Rightarrow> string" where
  "relationshipAddQuery opts rel =
     (let nl = [CHR 0x0A]; tab4 = replicate 4 (CHR 0x09); tab3 = replicate 3 (CHR 0x09)
      in case MergeMode opts of
        MergeModeCreate \<Rightarrow>
          nl @ tab4 @ ''MATCH (s {id: $sourceId}), (t {id: $targetId})'' @
          nl @ tab4 @ ''CREATE (s)-[r:'' @ RelType rel @ '']->(t)'' @
          nl @ tab4 @ ''SET r = $properties'' @ nl @ tab3
      | MergeModeUpdate \<Rightarrow>
          nl @ tab4 @ ''MATCH (s {id: $sourceId})-[r:'' @ RelType rel @ '']->(t {id: $targetId})'' @
          nl @ tab4 @ ''SET r += $properties'' @ nl @ tab3
      | MergeModeReplace \<Rightarrow>
          nl @ tab4 @ ''MATCH (s {id: $sourceId}), (t {id: $targetId})'' @
          nl @ tab4 @ ''MERGE (s)-[r:'' @ RelType rel @ '']->(t)'' @
          nl @ tab4 @ ''SET r = $properties'' @ nl @ tab3
      | MergeModeUpsert \<Rightarrow>
          nl @ tab4 @ ''MATCH (s {id: $sourceId}), (t {id: $targetId})'' @
          nl @ tab4 @ ''MERGE (s)-[r:'' @ RelType rel @ '']->(t)'' @
          nl @ tab4 @ ''SET r += $properties'' @ nl @ tab3)"

definition AddRelationships :: "'b world \<Rightarrow> Neo4j \<Rightarrow> Relationship list \<Rightarrow> Option list \<Rightarrow> 'b \<Rightarrow> error option \<times> 'b" where
  "AddRelationships w n rels options b =
     (if \<not> driver n then (Some ErrDriverNotInitialized, b)
      else
        (let opts = applyOptions options
         in forEach
              (\<lambda>rel b.
                 (let query = relationshipAddQuery opts rel;
                      params = VMap [(''sourceId'', VStr (ID (Source rel))),
                                     (''targetId'', VStr (ID (Target rel))),
                                     (''properties'', VMap (RelProperties rel))]
                  in case sessionRun w None query params b of
                       (Inl msg, b') \<Rightarrow>
                         (Some (Wrapped (''failed to add relationship '' @ ID (Source rel) @ ''-'' @
                                          RelType rel @ ''->'' @ ID (Target rel))
                                  (DriverError msg)), b')
                     | (Inr _, b') \<Rightarrow> (None, b')))
              rels b))"

text \<open>\<^verbatim>\<open>result.Next\<close> is false when the result has no row to deliver.\<close>

definition UpdateNode :: "'b world \<Rightarrow> Neo4j \<Rightarrow> string \<Rightarrow> props \<Rightarrow> Option list \<Rightarrow> 'b \<Rightarrow> error option \<times> 'b" where
  "UpdateNode w n nodeID properties options b =
     (if \<not> driver n then (Some ErrDriverNotInitialized, b)
      else
        (let nl = [CHR 0x0A]; tab2 = replicate 2 (CHR 0x09); tab1 = [CHR 0x09];
             query = nl @ tab2 @ ''MATCH (n {id: $id})'' @
                     nl @ tab2 @ ''SET n += $properties'' @
                     nl @ tab2 @ ''RETURN n'' @ nl @ tab1;
             params = VMap [(''id'', VStr nodeID), (''properties'', VMap properties)]
         in case sessionRun w None query params b of
              (Inl msg, b') \<Rightarrow>
                (Some (Wrapped (''failed to update node '' @ nodeID) (DriverError msg)), b')
            | (Inr res, b') \<Rightarrow>
                (if rows res = [] then (Some (Plain (''node '' @ nodeID @ '' not found'')), b')
                 else (None, b'))))"

definition UpdateRelationship :: "'b world \<Rightarrow> Neo4j \<Rightarrow> string \<Rightarrow> string \<Rightarrow> string \<Rightarrow> props \<Rightarrow> Option list \<Rightarrow> 'b \<Rightarrow> error option \<times> 'b" where
  "UpdateRelationship w n sourceID targetID relType properties options b =
     (if \<not> driver n then (Some ErrDriverNotInitialized, b)
      else
        (let nl = [CHR 0x0A]; tab2 = replicate 2 (CHR 0x09); tab1 = [CHR 0x09];
             query = nl @ tab2 @ ''MATCH (s {id: $sourceId})-[r:'' @ relType @
                       '']->(t {id: $targetId})'' @
                     nl @ tab2 @ ''SET r += $properties'' @
                     nl @ tab2 @ ''RETURN r'' @ nl @ tab1;
             params = VMap [(''sourceId'', VStr sourceID), (''targetId'', VStr targetID),
                            (''properties'', VMap properties)]
         in case sessionRun w None query params b of
              (Inl msg, b') \<Rightarrow>
                (Some (Wrapped (''failed to update relationship '' @ sourceID @ ''-'' @ relType @
                                 ''->'' @ targetID) (DriverError msg)), b')
            | (Inr res, b') \<Rightarrow>
                (if rows res = []
                 then (Some (Plain (''relationship '' @ sourceID @ ''-'' @ relType @ ''->'' @
                                     targetID @ '' not found'')), b')
                 else (None, b'))))"



subsection \<open>Schema refresh\<close>

text \<open>The three metadata queries, with the line breaks, tabs and quotation marks of
  the source's raw string literals.\<close>

definition nodePropsQuery :: string where
  "nodePropsQuery =
     [CHR 0x0A] @
     replicate 2 (CHR 0x09) @ ''CALL apoc.meta.data()'' @ [CHR 0x0A] @
     replicate 2 (CHR 0x09) @ ''YIELD label, other, elementType, type, property'' @ [CHR 0x0A] @
     replicate 2 (CHR 0x09) @ ''WHERE NOT type = '' @ [CHR 0x22] @ ''RELATIONSHIP'' @ [CHR 0x22] @ '' AND elementType = '' @ [CHR 0x22] @ ''node'' @ [CHR 0x22] @ '' '' @ [CHR 0x0A] @
     replicate 2 (CHR 0x09) @ ''  AND NOT label IN $EXCLUDED_LABELS'' @ [CHR 0x0A] @
     replicate 2 (CHR 0x09) @ ''WITH label AS nodeLabels, collect({property:property, type:type}) AS properties'' @ [CHR 0x0A] @
     replicate 2 (CHR 0x09) @ ''RETURN {labels: nodeLabels, properties: properties} AS output'' @ [CHR 0x0A] @
     replicate 1 (CHR 0x09)"

definition relPropsQuery :: string where
  "relPropsQuery =
     [CHR 0x0A] @
     replicate 2 (CHR 0x09) @ ''CALL apoc.meta.data()'' @ [CHR 0x0A] @
     replicate 2 (CHR 0x09) @ ''YIELD label, other, elementType, type, property'' @ [CHR 0x0A] @
     replicate 2 (CHR 0x09) @ ''WHERE NOT type = '' @ [CHR 0x22] @ ''RELATIONSHIP'' @ [CHR 0x22] @ '' AND elementType = '' @ [CHR 0x22] @ ''relationship'' @ [CHR 0x22] @ [CHR 0x0A] @
     replicate 2 (CHR 0x09) @ ''      AND NOT label in $EXCLUDED_LABELS'' @ [CHR 0x0A] @
     replicate 2 (CHR 0x09) @ ''WITH label AS nodeLabels, collect({property:property, type:type}) AS properties'' @ [CHR 0x0A] @
     replicate 2 (CHR 0x09) @ ''RETURN {type: nodeLabels, properties: properties} AS output'' @ [CHR 0x0A] @
     replicate 1 (CHR 0x09)"

definition relQuery :: string where
  "relQuery =
     [CHR 0x0A] @
     replicate 2 (CHR 0x09) @ ''CALL apoc.meta.data()'' @ [CHR 0x0A] @
     replicate 2 (CHR 0x09) @ ''YIELD label, other, elementType, type, property'' @ [CHR 0x0A] @
     replicate 2 (CHR 0x09) @ ''WHERE type = '' @ [CHR 0x22] @ ''RELATIONSHIP'' @ [CHR 0x22] @ '' AND elementType = '' @ [CHR 0x22] @ ''node'' @ [CHR 0x22] @ [CHR 0x0A] @
     replicate 2 (CHR 0x09) @ ''UNWIND other AS other_node'' @ [CHR 0x0A] @
     replicate 2 (CHR 0x09) @ ''WITH * WHERE NOT label IN $EXCLUDED_LABELS'' @ [CHR 0x0A] @
     replicate 2 (CHR 0x09) @ ''    AND NOT other_node IN $EXCLUDED_LABELS'' @ [CHR 0x0A] @
     replicate 2 (CHR 0x09) @ ''RETURN {start: label, type: property, end: toString(other_node)} AS output'' @ [CHR 0x0A] @
     replicate 1 (CHR 0x09)"

definition indexQuery :: string where
  "indexQuery =
     ''CALL apoc.schema.nodes() YIELD label, properties, type, size, valuesSelectivity '' @
     ''WHERE type = 'RANGE' RETURN *, size * valuesSelectivity as distinctValues''"

definition excludedLabels :: val where
  "excludedLabels =
     VSlice ''string'' [VStr ''_Bloom_Perspective_'', VStr ''_Bloom_Scene_'', VStr ''__Entity__'']"

definition excludedRels :: val where
  "excludedRels = VSlice ''string'' [VStr ''_Bloom_HAS_SCENE_'']"

text \<open>The loops that fill \<^verbatim>\<open>nodeProps\<close> (with the key \<^verbatim>\<open>labels\<close>) and \<^verbatim>\<open>relProps\<close> (with
  the key \<^verbatim>\<open>type\<close>): a row counts when its \<^verbatim>\<open>output\<close> is a map whose name is a
  string and which has a \<^verbatim>\<open>properties\<close> entry; a later row with the same name
  overwrites the earlier one.\<close>

definition collectProps :: "string \<Rightarrow> props list \<Rightarrow> props" where
  "collectProps nameKey recs =
     fold (\<lambda>record acc.
             case map_of record ''output'' of
               Some (VMap output) \<Rightarrow>
                 (case map_of output nameKey of
                    Some (VStr name) \<Rightarrow>
                      (case map_of output ''properties'' of
                         Some properties \<Rightarrow> AList.update name properties acc
                       | None \<Rightarrow> acc)
                  | _ \<Rightarrow> acc)
             | _ \<Rightarrow> acc)
       recs []"

definition collectRelationships :: "props list \<Rightarrow> props list" where
  "collectRelationships recs =
     concat (map (\<lambda>record. case map_of record ''output'' of
                              Some (VMap output) \<Rightarrow> [output]
                            | _ \<Rightarrow> []) recs)"

text \<open>\<^verbatim>\<open>RefreshSchema\<close> returns its error and leaves the new snapshot and its
  rendering in the store.\<close>

definition RefreshSchema :: "'b world \<Rightarrow> Neo4j \<Rightarrow> 'b \<Rightarrow> error option \<times> Neo4j \<times> 'b" where
  "RefreshSchema w n b =
     (if \<not> driver n then (Some ErrDriverNotInitialized, n, b)
      else case Query w n nodePropsQuery (VMap [(''EXCLUDED_LABELS'', excludedLabels)]) b of
          (Inl err, b1) \<Rightarrow>
            (if isAPOCError err then (Some (wrapAPOCError err), n, b1)
             else (Some (Wrapped ''failed to query node properties'' err), n, b1))
        | (Inr nodeResult, b1) \<Rightarrow>
      (case Query w n relPropsQuery (VMap [(''EXCLUDED_LABELS'', excludedRels)]) b1 of
          (Inl err, b2) \<Rightarrow>
            (Some (Wrapped ''failed to query relationship properties'' err), n, b2)
        | (Inr relPropsResult, b2) \<Rightarrow>
      (case Query w n relQuery (VMap [(''EXCLUDED_LABELS'', excludedLabels)]) b2 of
          (Inl err, b3) \<Rightarrow>
            (Some (Wrapped ''failed to query relationships'' err), n, b3)
        | (Inr relsResult, b3) \<Rightarrow>
      (case Query w n ''SHOW CONSTRAINTS'' VNil b3 of
          (constraintResult, b4) \<Rightarrow>
      (case Query w n indexQuery VNil b4 of
          (indexResult, b5) \<Rightarrow>
            (let schema =
                   \<lparr>node_props = collectProps ''labels'' (records nodeResult),
                    rel_props = collectProps ''type'' (records relPropsResult),
                    relationships = collectRelationships (records relsResult),
                    metadata =
                      [(''constraint'',
                          (case constraintResult of Inr res \<Rightarrow> records res | Inl err \<Rightarrow> [])),
                       (''index'',
                          (case indexResult of Inr res \<Rightarrow> records res | Inl err \<Rightarrow> []))]\<rparr>
             in (None,
                 n\<lparr>structuredSchema := schema,
                   schemaCache := formatSchema w (enhancedSchema n) schema\<rparr>,
                 b5)))))))"

subsection \<open>Vocabulary for the store's properties\<close>

text \<open>\<open>chunksOf k xs\<close>: the consecutive chunks of \<open>xs\<close> of size \<open>k\<close> (the last one may
  be shorter). A \<open>phase\<close> is one step of the import; \<open>schedule k docs\<close> is the order
  in which the claim lets them run.\<close>

definition chunksOf :: "nat \<Rightarrow> 'a list \<Rightarrow> 'a list list" where
  "chunksOf k xs = map (\<lambda>j. take k (drop (j * k) xs)) [0 ..< (length xs + k - 1) div k]"

datatype phase = ImportNodes GraphDocument | ImportRelationships GraphDocument

definition schedule :: "nat \<Rightarrow> GraphDocument list \<Rightarrow> phase list" where
  "schedule k docs =
     concat (map (\<lambda>chunk. map ImportNodes chunk @ map ImportRelationships chunk)
               (chunksOf k docs))"

fun perform :: "'b world \<Rightarrow> Neo4j \<Rightarrow> Options \<Rightarrow> phase \<Rightarrow> 'b \<Rightarrow> error option \<times> 'b" where
  "perform w n opts (ImportNodes doc) = importNodes w n opts doc"
| "perform w n opts (ImportRelationships doc) = importRelationships w n opts doc"

text \<open>Sample stores and databases. \<open>recording\<close> is a database that accepts every
  query, returns no rows and remembers the parameters it was sent.\<close>

definition emptySchema :: Schema where
  "emptySchema = \<lparr>node_props = [], rel_props = [], relationships = [], metadata = []\<rparr>"

definition store :: Neo4j where
  "store =
     \<lparr>driver = True, database = ''neo4j'', sanitize = False, enhancedSchema = False,
      baseEntityLabel = False, timeout = 0, schemaCache = [], structuredSchema = emptySchema\<rparr>"

definition noRows :: result where
  "noRows = \<lparr>rows = [], streamErr = None\<rparr>"

definition recording :: "(val list) world" where
  "recording =
     \<lparr>sessionRun = (\<lambda>deadline query params log. (Inr noRows, log @ [params])),
      md5hex = (\<lambda>text. ''d41d8cd98f00b204e9800998ecf8427e''),
      toUpper = (\<lambda>text. text),
      formatSchema = (\<lambda>enhanced schema. [])\<rparr>"

definition docOf :: "Node \<Rightarrow> Node \<Rightarrow> GraphDocument" where
  "docOf s t = \<lparr>Nodes = [s], Relationships = [knows s t], SourceDoc = noSource\<rparr>"

definition nodesSent :: "Node \<Rightarrow> val" where
  "nodesSent s =
     VMap [(''nodes'',
            VSlice ''map[string]interface{}''
              [VMap [(''id'', VStr (ID s)), (''type'', VStr (Type s)),
                     (''properties'', VMap (Properties s))]])]"

definition relsSent :: "Node \<Rightarrow> Node \<Rightarrow> val" where
  "relsSent s t =
     VMap [(''relationships'',
            VSlice ''map[string]interface{}''
              [VMap [(''source'', VStr (ID s)), (''source_label'', VStr (Type s)),
                     (''target'', VStr (ID t)), (''target_label'', VStr (Type t)),
                     (''type'', VStr ''KNOWS''), (''properties'', VMap [])]])]"



text \<open>\<open>restricted\<close> is a database that answers the three metadata queries and
  refuses \<^verbatim>\<open>SHOW CONSTRAINTS\<close> and the index query.\<close>

definition personRow :: props where
  "personRow =
     [(''output'', VMap [(''labels'', VStr ''Person''),
                         (''properties'', VList [VMap [(''property'', VStr ''name''),
                                                       (''type'', VStr ''STRING'')]])])]"

definition knowsRow :: props where
  "knowsRow =
     [(''output'', VMap [(''type'', VStr ''KNOWS''),
                         (''properties'', VList [VMap [(''property'', VStr ''since''),
                                                       (''type'', VStr ''DATE'')]])])]"

definition topologyOutput :: props where
  "topologyOutput =
     [(''start'', VStr ''Person''), (''type'', VStr ''KNOWS''), (''end'', VStr ''Person'')]"

definition topologyRow :: props where
  "topologyRow = [(''output'', VMap topologyOutput)]"

definition restricted :: "nat world" where
  "restricted =
     \<lparr>sessionRun =
        (\<lambda>deadline query params calls.
           if query = ''SHOW CONSTRAINTS'' then (Inl ''permission denied'', Suc calls)
           else if query = indexQuery then (Inl ''permission denied'', Suc calls)
           else if query = nodePropsQuery
             then (Inr \<lparr>rows = [personRow], streamErr = None\<rparr>, Suc calls)
           else if query = relPropsQuery
             then (Inr \<lparr>rows = [knowsRow], streamErr = None\<rparr>, Suc calls)
           else (Inr \<lparr>rows = [topologyRow], streamErr = None\<rparr>, Suc calls)),
      md5hex = (\<lambda>text. []),
      toUpper = (\<lambda>text. text),
      formatSchema = (\<lambda>enhanced schema. ''Node properties:'')\<rparr>"

section \<open>Properties of the entity model\<close>

lemma firstIndex_None_iff: "firstIndex P xs = None \<longleftrightarrow> (\<forall>x\<in>set xs. \<not> P x)"
  by (induction xs) auto

lemma firstIndex_Some_ex: "x \<in> set xs \<Longrightarrow> P x \<Longrightarrow> \<exists>i. firstIndex P xs = Some i"
  using firstIndex_None_iff [of P xs] by (cases "firstIndex P xs") auto

lemma distinct_key_tail: "distinct (map f (x # xs)) \<Longrightarrow> y \<in> set xs \<Longrightarrow> f y \<noteq> f x"
  by (metis distinct.simps(2) image_eqI list.simps(9) list.set_map)

lemma firstIndex_cut:
  "distinct (map f xs) \<Longrightarrow> firstIndex (\<lambda>x. f x = a) xs = Some i \<Longrightarrow>
   take i xs @ drop (i + 1) xs = filter (\<lambda>x. f x \<noteq> a) xs"
proof (induction xs arbitrary: i)
  case Nil
  then show ?case by simp
next
  case (Cons x xs)
  show ?case
  proof (cases "f x = a")
    case True
    with Cons.prems have "i = 0" by simp
    moreover from True Cons.prems(1) have "\<forall>y\<in>set xs. f y \<noteq> a"
      using distinct_key_tail [of f x xs] by auto
    ultimately show ?thesis using True by simp
  next
    case False
    with Cons.prems obtain j where j: "i = Suc j" "firstIndex (\<lambda>x. f x = a) xs = Some j"
      by auto
    with Cons.IH [of j] Cons.prems(1) False show ?thesis by simp
  qed
qed

text \<open>
  \<^bold>\<open>Claim C1\<close>. On a document whose nodes are unique by ID and that contains the
  node \<open>n\<close>, \<open>RemoveNode (ID n)\<close> returns true; afterwards no node has the ID of
  \<open>n\<close> and no relationship has it as source or target ID; the nodes and
  relationships that do not refer to that ID are all kept, in their order, and
  the provenance record is untouched.
\<close>

theorem RemoveNode_cascades:
  assumes "distinct (map ID (Nodes gd))" and "n \<in> set (Nodes gd)"
  shows "fst (RemoveNode (ID n) gd) = True
     \<and> (\<forall>m \<in> set (Nodes (snd (RemoveNode (ID n) gd))). ID m \<noteq> ID n)
     \<and> (\<forall>r \<in> set (Relationships (snd (RemoveNode (ID n) gd))).
           ID (Source r) \<noteq> ID n \<and> ID (Target r) \<noteq> ID n)
     \<and> Nodes (snd (RemoveNode (ID n) gd)) = filter (\<lambda>m. ID m \<noteq> ID n) (Nodes gd)
     \<and> Relationships (snd (RemoveNode (ID n) gd)) =
         filter (\<lambda>r. ID (Source r) \<noteq> ID n \<and> ID (Target r) \<noteq> ID n) (Relationships gd)
     \<and> SourceDoc (snd (RemoveNode (ID n) gd)) = SourceDoc gd"
proof -
  from assms(2) obtain i where i: "firstIndex (\<lambda>node. ID node = ID n) (Nodes gd) = Some i"
    using firstIndex_Some_ex [of n "Nodes gd" "\<lambda>node. ID node = ID n"] by auto
  have cut: "take i (Nodes gd) @ drop (i + 1) (Nodes gd) = filter (\<lambda>m. ID m \<noteq> ID n) (Nodes gd)"
    using firstIndex_cut [OF assms(1) i] .
  show ?thesis
    using i cut by (simp add: RemoveNode_def removeRelationshipsByNodeID_def)
qed

theorem RemoveNode_cascades_witness:
  "distinct (map ID (Nodes docTriangle)) \<and> bob \<in> set (Nodes docTriangle)
   \<and> RemoveNode ''2'' docTriangle =
       (True, \<lparr>Nodes = [alice, carol], Relationships = [knows carol alice],
               SourceDoc = noSource\<rparr>)"
proof -
  have h1: "distinct (map ID (Nodes docTriangle))"
    and h2: "bob \<in> set (Nodes docTriangle)"
    by (simp_all add: docTriangle_def alice_def bob_def carol_def)
  have id: "ID bob = ''2''" by (simp add: bob_def)
  from RemoveNode_cascades [OF h1 h2]
  have "fst (RemoveNode ''2'' docTriangle) = True"
    and "Nodes (snd (RemoveNode ''2'' docTriangle)) = filter (\<lambda>m. ID m \<noteq> ''2'') (Nodes docTriangle)"
    and "Relationships (snd (RemoveNode ''2'' docTriangle)) =
         filter (\<lambda>r. ID (Source r) \<noteq> ''2'' \<and> ID (Target r) \<noteq> ''2'') (Relationships docTriangle)"
    and "SourceDoc (snd (RemoveNode ''2'' docTriangle)) = SourceDoc docTriangle"
    unfolding id by blast+
  then have "fst (RemoveNode ''2'' docTriangle) = True"
    and "snd (RemoveNode ''2'' docTriangle) =
       \<lparr>Nodes = [alice, carol], Relationships = [knows carol alice], SourceDoc = noSource\<rparr>"
    by (simp_all add: docTriangle_def alice_def bob_def carol_def knows_def)
  with h1 h2 show ?thesis by (simp add: prod_eq_iff)
qed

lemma new_shift:
  "map snd (filter (\<lambda>(i, y). k y \<notin> A \<and> k y \<notin> k ` set (take i (x # xs))) (enumerate (Suc 0) xs)) =
   map snd (filter (\<lambda>(i, y). k y \<notin> insert (k x) A \<and> k y \<notin> k ` set (take i xs)) (enumerate 0 xs))"
proof -
  have "filter (\<lambda>(i, y). k y \<notin> A \<and> k y \<notin> k ` set (take i (x # xs))) (map (apfst Suc) (enumerate 0 xs))
      = map (apfst Suc) (filter (\<lambda>(i, y). k y \<notin> insert (k x) A \<and> k y \<notin> k ` set (take i xs)) (enumerate 0 xs))"
    unfolding filter_map by (rule arg_cong [where f = "map (apfst Suc)"], rule filter_cong) auto
  then show ?thesis
    by (simp add: enumerate_Suc_eq comp_def)
qed

lemma fold_append_new:
  "fold (\<lambda>x acc. if firstIndex (\<lambda>y. k y = k x) acc = None then acc @ [x] else acc) xs acc =
   acc @ firstNew k acc xs"
  unfolding firstNew_def
proof (induction xs arbitrary: acc)
  case Nil
  then show ?case by simp
next
  case (Cons x xs)
  show ?case
  proof (cases "k x \<in> k ` set acc")
    case True
    then obtain j where "firstIndex (\<lambda>y. k y = k x) acc = Some j"
      using firstIndex_None_iff [of "\<lambda>y. k y = k x" acc] by force
    moreover from True have "insert (k x) (k ` set acc) = k ` set acc" by auto
    ultimately show ?thesis
      using Cons.IH [of acc] True new_shift [of k "k ` set acc" x xs] by simp
  next
    case False
    then have "firstIndex (\<lambda>y. k y = k x) acc = None"
      unfolding firstIndex_None_iff by (metis image_eqI)
    moreover have "insert (k x) (k ` set acc) = k ` set (acc @ [x])" by auto
    ultimately show ?thesis
      using Cons.IH [of "acc @ [x]"] False new_shift [of k "k ` set acc" x xs] by simp
  qed
qed

lemma new_distinct:
  "distinct (map k xs) \<Longrightarrow>
   map snd (filter (\<lambda>(i, x). k x \<notin> A \<and> k x \<notin> k ` set (take i xs)) (enumerate 0 xs)) =
   filter (\<lambda>x. k x \<notin> A) xs"
proof (induction xs arbitrary: A)
  case Nil
  then show ?case by simp
next
  case (Cons x xs)
  have "filter (\<lambda>y. k y \<notin> insert (k x) A) xs = filter (\<lambda>y. k y \<notin> A) xs"
  proof (rule filter_cong)
    fix y assume "y \<in> set xs"
    with Cons.prems have "k y \<noteq> k x" by (rule distinct_key_tail)
    then show "(k y \<notin> insert (k x) A) = (k y \<notin> A)" by simp
  qed simp
  with Cons.IH [of "insert (k x) A"] Cons.prems new_shift [of k A x xs]
  show ?case by simp
qed

lemma firstNew_distinct:
  "distinct (map k xs) \<Longrightarrow> firstNew k old xs = filter (\<lambda>x. k x \<notin> k ` set old) xs"
  unfolding firstNew_def by (rule new_distinct)

lemma fold_nodes:
  "fold (\<lambda>node g. if \<not> NodeExists g (ID node) then AddNode g node else g) xs gd =
   gd\<lparr>Nodes := fold (\<lambda>x acc. if firstIndex (\<lambda>y. ID y = ID x) acc = None then acc @ [x] else acc)
                    xs (Nodes gd)\<rparr>"
  by (induction xs arbitrary: gd) (simp_all add: NodeExists_def FindNode_def AddNode_def)

lemma RelationshipExists_iff:
  "RelationshipExists g (ID (Source rel)) (ID (Target rel)) (RelType rel) =
   (firstIndex (\<lambda>y. GetIdentifier y = GetIdentifier rel) (Relationships g) \<noteq> None)"
proof -
  have "(\<lambda>y. ID (Source y) = ID (Source rel) \<and> ID (Target y) = ID (Target rel)
              \<and> RelType y = RelType rel) = (\<lambda>y. GetIdentifier y = GetIdentifier rel)"
    by (auto simp: GetIdentifier_def)
  then show ?thesis
    by (simp only: RelationshipExists_def FindRelationship_def)
qed

lemma fold_rels:
  "fold (\<lambda>rel g. if \<not> RelationshipExists g (ID (Source rel)) (ID (Target rel)) (RelType rel)
                  then AddRelationship g rel else g) xs gd =
   gd\<lparr>Relationships :=
        fold (\<lambda>x acc. if firstIndex (\<lambda>y. GetIdentifier y = GetIdentifier x) acc = None
                       then acc @ [x] else acc) xs (Relationships gd)\<rparr>"
  unfolding RelationshipExists_iff
  by (induction xs arbitrary: gd) (simp_all add: AddRelationship_def)

text \<open>
  \<^bold>\<open>Claim C6\<close>, as amended. \<open>Merge docA docB\<close> keeps every node and relationship
  of \<open>docA\<close> unchanged and in place (and the provenance record of \<open>docA\<close>), and
  appends from \<open>docB\<close>, in the order of \<open>docB\<close>, exactly the first occurrence of
  each identity (node ID, respectively the triple of source ID, target ID and
  type) that \<open>docA\<close> does not contain. When the nodes of \<open>docB\<close> are unique by ID,
  these are exactly the nodes of \<open>docB\<close> whose ID is not in \<open>docA\<close>; likewise for
  relationships unique by their triple.
\<close>

theorem Merge_appends_first_new:
  "Nodes (Merge docA docB) = Nodes docA @ firstNew ID (Nodes docA) (Nodes docB)
   \<and> Relationships (Merge docA docB) =
       Relationships docA @ firstNew GetIdentifier (Relationships docA) (Relationships docB)
   \<and> SourceDoc (Merge docA docB) = SourceDoc docA
   \<and> (distinct (map ID (Nodes docB)) \<longrightarrow>
        firstNew ID (Nodes docA) (Nodes docB) =
          filter (\<lambda>node. ID node \<notin> ID ` set (Nodes docA)) (Nodes docB))
   \<and> (distinct (map GetIdentifier (Relationships docB)) \<longrightarrow>
        firstNew GetIdentifier (Relationships docA) (Relationships docB) =
          filter (\<lambda>rel. GetIdentifier rel \<notin> GetIdentifier ` set (Relationships docA))
            (Relationships docB))"
  by (simp add: Merge_def Let_def fold_nodes fold_rels fold_append_new firstNew_distinct)

theorem Merge_appends_first_new_witness:
  "distinct (map ID (Nodes sampleB))
   \<and> distinct (map GetIdentifier (Relationships sampleB))
   \<and> Merge sampleA sampleB =
       \<lparr>Nodes = [alice, bob, carol],
        Relationships = [knows alice alice, knows alice2 bob],
        SourceDoc = noSource\<rparr>"
proof -
  have h1: "distinct (map ID (Nodes sampleB))"
    by (simp add: sampleB_def alice2_def bob_def carol_def)
  have h2: "distinct (map GetIdentifier (Relationships sampleB))"
    by (simp add: sampleB_def alice2_def bob_def knows_def GetIdentifier_def)
  from Merge_appends_first_new [of sampleA sampleB] h1 h2
  have "Nodes (Merge sampleA sampleB) =
          Nodes sampleA @ filter (\<lambda>node. ID node \<notin> ID ` set (Nodes sampleA)) (Nodes sampleB)"
    and "Relationships (Merge sampleA sampleB) =
          Relationships sampleA @
          filter (\<lambda>rel. GetIdentifier rel \<notin> GetIdentifier ` set (Relationships sampleA))
            (Relationships sampleB)"
    and "SourceDoc (Merge sampleA sampleB) = SourceDoc sampleA"
    by simp_all
  then have "Nodes (Merge sampleA sampleB) = [alice, bob, carol]"
    and "Relationships (Merge sampleA sampleB) = [knows alice alice, knows alice2 bob]"
    and "SourceDoc (Merge sampleA sampleB) = noSource"
    by (simp_all add: sampleA_def sampleB_def alice_def alice2_def bob_def carol_def knows_def
        GetIdentifier_def)
  then have "Merge sampleA sampleB =
       \<lparr>Nodes = [alice, bob, carol],
        Relationships = [knows alice alice, knows alice2 bob],
        SourceDoc = noSource\<rparr>"
    by simp
  with h1 h2 show ?thesis by simp
qed

text \<open>
  The claim as it was stated appends every node of \<open>docB\<close> whose ID \<open>docA\<close> lacks.
  When \<open>docB\<close> carries two nodes with one ID, only the first is appended: \<open>rob\<close>
  is a node of \<open>sampleDup\<close>, its ID is not in \<open>sampleA\<close>, and it is not in the
  merged document.
\<close>

theorem Merge_duplicate_in_incoming_counterexample:
  "rob \<in> set (Nodes sampleDup)
   \<and> ID rob \<notin> ID ` set (Nodes sampleA)
   \<and> Nodes (Merge sampleA sampleDup) = [alice, bob]
   \<and> rob \<notin> set (Nodes (Merge sampleA sampleDup))"
  by (simp add: Merge_def sampleA_def sampleDup_def alice_def alice2_def bob_def rob_def
      NodeExists_def FindNode_def AddNode_def)

section \<open>Properties of the value sanitizer\<close>

lemma sanitized_length:
  "length (filter (\<lambda>s. s \<noteq> VNil) (map valueSanitize xs)) \<le> length xs"
  using length_filter_le [of "\<lambda>s. s \<noteq> VNil" "map valueSanitize xs"] by simp





lemma embedding_absent: "valueSanitize embedding = VNil"
  by (simp add: embedding_def LIST_LIMIT_def)

lemma sampleRecord_sanitized: "valueSanitize sampleRecord = sampleSanitized"
  by (simp add: sampleRecord_def sampleSanitized_def embedding_absent) (simp add: LIST_LIMIT_def)





text \<open>
  \<^bold>\<open>Claim C4\<close>. \<open>valueSanitize\<close> is idempotent: sanitizing a sanitized value
  changes nothing, for every nested map, sequence or scalar.
\<close>

theorem sanitize_idempotent: "valueSanitize (valueSanitize v) = valueSanitize v"
proof (induction v rule: valueSanitize.induct)
  case (1 kvs)
  let ?f = "\<lambda>(key, value). (key, valueSanitize value)"
  let ?p = "\<lambda>(key, sanitized). sanitized \<noteq> VNil"
  have "map ?f (filter ?p (map ?f kvs)) = filter ?p (map ?f kvs)"
  proof (rule map_idI)
    fix x assume "x \<in> set (filter ?p (map ?f kvs))"
    then obtain k v where "(k, v) \<in> set kvs" "x = (k, valueSanitize v)" by auto
    with 1 show "?f x = x" by simp
  qed
  then show ?case by simp
next
  case (2 xs)
  show ?case
  proof (cases "LIST_LIMIT \<le> length xs")
    case True
    then show ?thesis by simp
  next
    case False
    let ?ys = "filter (\<lambda>s. s \<noteq> VNil) (map valueSanitize xs)"
    from False sanitized_length [of xs] have len: "\<not> LIST_LIMIT \<le> length ?ys" by linarith
    have "map valueSanitize ?ys = ?ys"
    proof (rule map_idI)
      fix x assume "x \<in> set ?ys"
      then obtain y where "y \<in> set xs" "x = valueSanitize y" by auto
      with 2 False show "valueSanitize x = x" by simp
    qed
    then show ?thesis using False len by simp
  qed
qed simp_all

theorem sanitize_idempotent_witness:
  "valueSanitize sampleRecord = sampleSanitized
   \<and> valueSanitize sampleSanitized = sampleSanitized"
  using sanitize_idempotent [of sampleRecord] sampleRecord_sanitized by simp

text \<open>
  \<^bold>\<open>Claim C10\<close>. A sequence of fewer than \<open>LIST_LIMIT\<close> elements is never
  reported absent, whatever it contains: its result is the sequence of its
  non-absent sanitized elements, which is not the nil interface, so a map entry
  whose value is such a sequence stays in the sanitized map, bound to that
  result. When the sequence is empty, or when every one of its elements
  sanitizes to absent, the result is the empty sequence.
\<close>

theorem sanitize_short_sequence_retained:
  assumes "length xs < LIST_LIMIT"
  shows "valueSanitize (VList xs) \<noteq> VNil
     \<and> valueSanitize (VList xs) = VList (filter (\<lambda>s. s \<noteq> VNil) (map valueSanitize xs))
     \<and> ((k, VList xs) \<in> set kvs
          \<longrightarrow> (k, valueSanitize (VList xs)) \<in> set (entries (valueSanitize (VMap kvs))))
     \<and> ((\<forall>x \<in> set xs. valueSanitize x = VNil)
          \<longrightarrow> valueSanitize (VList xs) = VList []
            \<and> ((k, VList xs) \<in> set kvs
                 \<longrightarrow> (k, VList []) \<in> set (entries (valueSanitize (VMap kvs)))))"
proof -
  from assms have e: "valueSanitize (VList xs)
      = VList (filter (\<lambda>s. s \<noteq> VNil) (map valueSanitize xs))"
    by simp
  then have ne: "valueSanitize (VList xs) \<noteq> VNil" by simp
  have kept: "(k, valueSanitize (VList xs)) \<in> set (entries (valueSanitize (VMap kvs)))"
    if "(k, VList xs) \<in> set kvs"
  proof -
    from that have "(k, valueSanitize (VList xs))
        \<in> set (map (\<lambda>(key, value). (key, valueSanitize value)) kvs)"
      by force
    with ne show ?thesis by simp
  qed
  have empty: "valueSanitize (VList xs) = VList []" if "\<forall>x \<in> set xs. valueSanitize x = VNil"
  proof -
    from that have "filter (\<lambda>s. s \<noteq> VNil) (map valueSanitize xs) = []"
      by (simp add: filter_empty_conv)
    with e show ?thesis by simp
  qed
  from e ne kept empty show ?thesis by metis
qed

theorem sanitize_short_sequence_retained_witness:
  "length [embedding, VNil] < LIST_LIMIT
   \<and> valueSanitize embedding = VNil \<and> valueSanitize VNil = VNil
   \<and> (''vectors'', VList [embedding, VNil]) \<in> set [(''vectors'', VList [embedding, VNil])]
   \<and> valueSanitize (VList [embedding, VNil]) = VList []
   \<and> (''vectors'', VList []) \<in>
        set (entries (valueSanitize (VMap [(''vectors'', VList [embedding, VNil])])))
   \<and> valueSanitize (VList []) = VList []
   \<and> length [VInt 1, embedding] < LIST_LIMIT
   \<and> valueSanitize (VList [VInt 1, embedding]) = VList [VInt 1]
   \<and> (''inner'', VList [VInt 1]) \<in>
        set (entries (valueSanitize (VMap [(''inner'', VList [VInt 1, embedding])])))"
proof -
  have h1: "length [embedding, VNil] < LIST_LIMIT" by (simp add: LIST_LIMIT_def)
  have h2: "\<forall>x \<in> set [embedding, VNil]. valueSanitize x = VNil"
    by (simp add: embedding_absent)
  have h3: "length ([] :: val list) < LIST_LIMIT"
    and h4: "length [VInt 1, embedding] < LIST_LIMIT"
    by (simp_all add: LIST_LIMIT_def)
  from sanitize_short_sequence_retained [OF h1, of "''vectors''"
      "[(''vectors'', VList [embedding, VNil])]"]
    sanitize_short_sequence_retained [OF h3, of "''x''" "[]"]
    sanitize_short_sequence_retained [OF h4, of "''inner''"
      "[(''inner'', VList [VInt 1, embedding])]"]
    h1 h2 h4
  show ?thesis by (simp add: embedding_absent)
qed

section \<open>Properties of the batch import\<close>

lemma chunk_count:
  assumes "0 < k" and "xs \<noteq> []"
  shows "(length xs + k - 1) div k = Suc ((length (drop k xs) + k - 1) div k)"
proof (cases "k \<le> length xs")
  case True
  then obtain a where a: "length xs = a + k"
    by (metis le_add_diff_inverse2)
  from assms(1) have "a + k + k - 1 = (a + k - 1) + k" by arith
  then have "(a + k + k - 1) div k = Suc ((a + k - 1) div k)"
    using assms(1) by (simp only: div_add_self2)
  with a show ?thesis by simp
next
  case False
  from assms have "0 < length xs" by simp
  with False assms(1) have "k * 1 \<le> length xs + k - 1" and "length xs + k - 1 < k * Suc 1"
    by arith+
  then have "(length xs + k - 1) div k = 1" by (rule div_nat_eqI)
  moreover from False have "length (drop k xs) = 0" by simp
  moreover from assms(1) have "(k - 1) div k = 0" by simp
  ultimately show ?thesis by simp
qed

lemma chunks_shift:
  "map (\<lambda>j. take k (drop (j * k) xs)) [0 ..< Suc m] =
   take k xs # map (\<lambda>j. take k (drop (j * k) (drop k xs))) [0 ..< m]"
proof -
  have "\<And>j. drop (Suc j * k) xs = drop (j * k) (drop k xs)"
    by (simp add: add.commute)
  then show ?thesis
    by (simp only: map_upt_Suc) simp
qed

lemma forEach_append:
  "forEach f (xs @ ys) b =
   (case forEach f xs b of (Some err, b') \<Rightarrow> (Some err, b') | (None, b') \<Rightarrow> forEach f ys b')"
  by (induction xs arbitrary: b) (auto split: prod.splits option.splits)

lemma forEach_map: "forEach f (map g xs) b = forEach (\<lambda>x. f (g x)) xs b"
  by (induction xs arbitrary: b) (auto split: prod.splits option.splits)

lemma processBatch_phases:
  "processBatch w n opts batch b =
   forEach (perform w n opts) (map ImportNodes batch @ map ImportRelationships batch) b"
  by (auto simp: processBatch_def forEach_append forEach_map split: prod.splits option.splits)

lemma chunksOf_Nil: "chunksOf k [] = []"
  by (cases k) (simp_all add: chunksOf_def)

lemma chunksOf_step:
  assumes "0 < k" and "xs \<noteq> []"
  shows "chunksOf k xs = take k xs # chunksOf k (drop k xs)"
  unfolding chunksOf_def chunk_count [OF assms] by (rule chunks_shift)


lemma schedule_step:
  assumes "0 < k" and "xs \<noteq> []"
  shows "schedule k xs =
     map ImportNodes (take k xs) @ map ImportRelationships (take k xs) @ schedule k (drop k xs)"
  by (simp add: schedule_def chunksOf_step [OF assms])

lemma batchLoop_schedule:
  "0 \<le> i \<Longrightarrow>
   batchLoop w n opts docs i b =
   forEach (perform w n opts) (schedule (nat (batchSize opts)) (drop (nat i) docs)) b"
proof (induction w n opts docs i b rule: batchLoop.induct)
  case (1 w n opts docs i b)
  have pos: "0 < batchSize opts" by (simp add: batchSize_def)
  show ?case
  proof (cases "i < int (length docs)")
    case False
    with 1(2) have "drop (nat i) docs = []" by simp
    with False show ?thesis
      by (subst batchLoop.simps) (simp add: schedule_def chunksOf_Nil)
  next
    case True
    let ?k = "nat (batchSize opts)"
    let ?end = "if i + batchSize opts > int (length docs) then int (length docs)
                else i + batchSize opts"
    let ?batch = "take (nat (?end - i)) (drop (nat i) docs)"
    have batch: "?batch = take ?k (drop (nat i) docs)"
      using True 1(2) pos by auto
    have ne: "drop (nat i) docs \<noteq> []" using True 1(2) by simp
    have rest: "drop ?k (drop (nat i) docs) = drop (nat (i + batchSize opts)) docs"
      using 1(2) pos by (simp add: nat_add_distrib add.commute)
    have sched: "schedule ?k (drop (nat i) docs) =
        (map ImportNodes ?batch @ map ImportRelationships ?batch) @
        schedule ?k (drop (nat (i + batchSize opts)) docs)"
      using schedule_step [of ?k "drop (nat i) docs"] pos ne batch rest by simp
    have IH: "\<And>b'. processBatch w n opts ?batch b = (None, b') \<Longrightarrow>
        batchLoop w n opts docs (i + batchSize opts) b' =
        forEach (perform w n opts) (schedule ?k (drop (nat (i + batchSize opts)) docs)) b'"
      using 1(1) [OF True refl refl] 1(2) pos by simp
    have unfold: "batchLoop w n opts docs i b =
        (case processBatch w n opts ?batch b of
           (Some err, b') \<Rightarrow> (Some err, b')
         | (None, b') \<Rightarrow> batchLoop w n opts docs (i + batchSize opts) b')"
      using True by (subst batchLoop.simps) (simp add: Let_def)
    have rhs: "forEach (perform w n opts) (schedule ?k (drop (nat i) docs)) b =
        (case processBatch w n opts ?batch b of
           (Some err, b') \<Rightarrow> (Some err, b')
         | (None, b') \<Rightarrow>
             forEach (perform w n opts) (schedule ?k (drop (nat (i + batchSize opts)) docs)) b')"
      unfolding sched processBatch_phases [of w n opts ?batch b]
      by (rule forEach_append)
    obtain e b' where P: "processBatch w n opts ?batch b = (e, b')"
      by (cases "processBatch w n opts ?batch b")
    show ?thesis
    proof (cases e)
      case None
      with P IH [of b'] show ?thesis
        unfolding unfold rhs by simp
    next
      case (Some err)
      with P show ?thesis
        unfolding unfold rhs by simp
    qed
  qed
qed

lemma concat_chunksOf: "0 < k \<Longrightarrow> concat (chunksOf k xs) = xs"
proof (induction xs rule: length_induct)
  case (1 xs)
  show ?case
  proof (cases "xs = []")
    case True
    then show ?thesis by (simp add: chunksOf_Nil)
  next
    case False
    with 1(2) have "length (drop k xs) < length xs" by simp
    with 1 have "concat (chunksOf k (drop k xs)) = drop k xs" by blast
    with False 1(2) show ?thesis by (simp add: chunksOf_step)
  qed
qed

lemma chunksOf_sizes:
  "0 < k \<Longrightarrow> chunk \<in> set (chunksOf k xs) \<Longrightarrow> chunk \<noteq> [] \<and> length chunk \<le> k"
proof (induction xs rule: length_induct)
  case (1 xs)
  show ?case
  proof (cases "xs = []")
    case True
    with 1(3) show ?thesis by (simp add: chunksOf_Nil)
  next
    case False
    with 1(2) have shorter: "length (drop k xs) < length xs" by simp
    from False 1(2,3) consider "chunk = take k xs" | "chunk \<in> set (chunksOf k (drop k xs))"
      by (auto simp: chunksOf_step)
    then show ?thesis
    proof cases
      case 1
      with False \<open>0 < k\<close> show ?thesis by simp
    next
      case 2
      with 1(1,2) shorter show ?thesis by blast
    qed
  qed
qed

lemma chunksOf_full:
  "0 < k \<Longrightarrow> chunk \<in> set (butlast (chunksOf k xs)) \<Longrightarrow> length chunk = k"
proof (induction xs rule: length_induct)
  case (1 xs)
  show ?case
  proof (cases "xs = []")
    case True
    with 1(3) show ?thesis by (simp add: chunksOf_Nil)
  next
    case False
    with 1(2) have shorter: "length (drop k xs) < length xs" by simp
    show ?thesis
    proof (cases "chunksOf k (drop k xs) = []")
      case True
      with False 1(2,3) show ?thesis by (simp add: chunksOf_step)
    next
      case rest: False
      then have "drop k xs \<noteq> []" by (auto simp: chunksOf_Nil)
      then have full: "length (take k xs) = k" by simp
      from False rest 1(2,3) consider "chunk = take k xs"
        | "chunk \<in> set (butlast (chunksOf k (drop k xs)))"
        by (auto simp: chunksOf_step)
      then show ?thesis
      proof cases
        case 1
        with full show ?thesis by simp
      next
        case 2
        with 1(1,2) shorter show ?thesis by blast
      qed
    qed
  qed
qed

text \<open>
  \<^bold>\<open>Claim C7\<close>. \<open>AddGraphDocument\<close> (with an initialised driver) runs the import
  phases in the order of \<open>schedule k docs\<close>, stopping at the first phase that
  fails: the documents are cut into consecutive chunks of \<open>k\<close> documents, the
  chunks are taken in input order, and within a chunk the nodes of every
  document are imported, in order, before the relationships of any document of
  that chunk. \<open>k\<close> is the configured \<open>BatchSize\<close>, or 100 when that is not
  positive. The chunks concatenate to the input; none is empty or longer than
  \<open>k\<close>, and all but the last hold exactly \<open>k\<close> documents.
\<close>

theorem AddGraphDocument_two_phase_batches:
  assumes "opts = applyOptions options" and "k = nat (batchSize opts)"
  shows "AddGraphDocument w n docs options b =
       (if \<not> driver n then (Some ErrDriverNotInitialized, b)
        else forEach (perform w n opts) (schedule k docs) b)
     \<and> schedule k docs =
         concat (map (\<lambda>chunk. map ImportNodes chunk @ map ImportRelationships chunk)
                   (chunksOf k docs))
     \<and> int k = (if BatchSize opts \<le> 0 then 100 else BatchSize opts)
     \<and> concat (chunksOf k docs) = docs
     \<and> (\<forall>chunk \<in> set (chunksOf k docs). chunk \<noteq> [] \<and> length chunk \<le> k)
     \<and> (\<forall>chunk \<in> set (butlast (chunksOf k docs)). length chunk = k)"
proof -
  have pos: "0 < k" using assms(2) by (simp add: batchSize_def)
  have "batchLoop w n opts docs 0 b = forEach (perform w n opts) (schedule k docs) b"
    using batchLoop_schedule [of 0 w n opts docs b] assms(2) by simp
  then have run: "AddGraphDocument w n docs options b =
       (if \<not> driver n then (Some ErrDriverNotInitialized, b)
        else forEach (perform w n opts) (schedule k docs) b)"
    using assms(1) by (simp add: AddGraphDocument_def)
  have size: "int k = (if BatchSize opts \<le> 0 then 100 else BatchSize opts)"
    using assms(2) by (simp add: batchSize_def)
  from run size pos show ?thesis
    using concat_chunksOf [of k docs] chunksOf_sizes [of k _ docs] chunksOf_full [of k _ docs]
    by (simp add: schedule_def)
qed

lemma schedule_three_by_two:
  "schedule 2 [d1, d2, d3] =
     [ImportNodes d1, ImportNodes d2, ImportRelationships d1, ImportRelationships d2,
      ImportNodes d3, ImportRelationships d3]"
  by (simp add: schedule_def chunksOf_def upt_conv_Cons)

lemma recording_importNodes:
  "s \<in> {alice, bob, carol} \<Longrightarrow>
   importNodes recording store (NewOptions\<lparr>BatchSize := 2\<rparr>) (docOf s t) log =
     (None, log @ [nodesSent s])"
  by (auto simp add: importNodes_def docOf_def ensureBaseEntityConstraint_def store_def
      Query_def recording_def noRows_def nodeImportParams_def nodesSent_def cleanString_def
      NewOptions_def alice_def bob_def carol_def)

lemma recording_importRelationships:
  "s \<in> {alice, bob, carol} \<Longrightarrow> t \<in> {alice, bob, carol} \<Longrightarrow>
   importRelationships recording store (NewOptions\<lparr>BatchSize := 2\<rparr>) (docOf s t) log =
     (None, log @ [relsSent s t])"
  by (auto simp add: importRelationships_def docOf_def store_def Query_def knows_def
      recording_def noRows_def relImportParams_def relsSent_def cleanString_def
      replaceSpaces_def alice_def bob_def carol_def)

theorem AddGraphDocument_two_phase_batches_witness:
  "driver store
   \<and> applyOptions [WithBatchSize 2] = NewOptions\<lparr>BatchSize := 2\<rparr>
   \<and> AddGraphDocument recording store
        [docOf alice bob, docOf bob carol, docOf carol alice] [WithBatchSize 2] [] =
       (None, [nodesSent alice, nodesSent bob, relsSent alice bob, relsSent bob carol,
               nodesSent carol, relsSent carol alice])"
proof -
  have d: "driver store" by (simp add: store_def)
  have o: "applyOptions [WithBatchSize 2] = NewOptions\<lparr>BatchSize := 2\<rparr>"
    by (simp add: applyOptions_def WithBatchSize_def)
  have k: "nat (batchSize (NewOptions\<lparr>BatchSize := 2\<rparr>)) = 2"
    by (simp add: batchSize_def)
  from AddGraphDocument_two_phase_batches [OF o [symmetric] k [symmetric],
      of recording store "[docOf alice bob, docOf bob carol, docOf carol alice]" "[]"]
  have "AddGraphDocument recording store
        [docOf alice bob, docOf bob carol, docOf carol alice] [WithBatchSize 2] [] =
      forEach (perform recording store (NewOptions\<lparr>BatchSize := 2\<rparr>))
        (schedule 2 [docOf alice bob, docOf bob carol, docOf carol alice]) []"
    using d by simp
  then show ?thesis
    using d o
    by (simp add: schedule_three_by_two recording_importNodes recording_importRelationships)
qed

section \<open>Properties of adding and removing single entities\<close>



text \<open>
  \<^bold>\<open>Claim C2\<close> does not hold of the code. Under merge mode \<open>Update\<close>, \<open>AddNodes\<close>
  and \<open>AddRelationships\<close> send a \<^verbatim>\<open>MATCH ... SET\<close> query and do not look at its
  result: whenever the driver runs the query without an error of its own, as it
  does for a \<^verbatim>\<open>MATCH\<close> that finds nothing, they return no error. (The database is
  then as the driver left it.)
\<close>

theorem Add_update_mode_ignores_missing_entity:
  assumes "driver n" and "MergeMode (applyOptions options) = MergeModeUpdate"
    and "sessionRun w None (''MATCH (n:`'' @ Type node @ ''` {id: $id}) SET n += $properties'')
           (VMap [(''id'', VStr (ID node)), (''properties'', VMap (Properties node))]) b
         = (Inr res, b')"
    and "sessionRun w None (relationshipAddQuery (applyOptions options) rel)
           (VMap [(''sourceId'', VStr (ID (Source rel))), (''targetId'', VStr (ID (Target rel))),
                  (''properties'', VMap (RelProperties rel))]) c
         = (Inr res', c')"
  shows "AddNodes w n [node] options b = (None, b')
     \<and> AddRelationships w n [rel] options c = (None, c')"
  using assms by (simp add: AddNodes_def AddRelationships_def nodeAddQuery_def Let_def)

text \<open>
  On a database that holds nothing and answers every query with no rows, adding
  a node and a relationship under \<open>Update\<close> reports no error, while \<open>UpdateNode\<close>
  and \<open>UpdateRelationship\<close>, which look at the rows, report that the entity was
  not found.
\<close>

theorem Add_update_mode_ignores_missing_entity_witness:
  "driver store
   \<and> MergeMode (applyOptions [WithMergeMode MergeModeUpdate]) = MergeModeUpdate
   \<and> fst (AddNodes recording store [alice2] [WithMergeMode MergeModeUpdate] []) = None
   \<and> fst (AddRelationships recording store [knows alice bob] [WithMergeMode MergeModeUpdate] [])
       = None
   \<and> fst (UpdateNode recording store ''1'' [(''b'', VInt 2)] [] []) =
       Some (Plain ''node 1 not found'')
   \<and> fst (UpdateRelationship recording store ''1'' ''2'' ''KNOWS'' [] [] []) =
       Some (Plain ''relationship 1-KNOWS->2 not found'')"
proof -
  have d: "driver store" by (simp add: store_def)
  have m: "MergeMode (applyOptions [WithMergeMode MergeModeUpdate]) = MergeModeUpdate"
    by (simp add: applyOptions_def WithMergeMode_def NewOptions_def)
  have r1: "sessionRun recording None
      (''MATCH (n:`'' @ Type alice2 @ ''` {id: $id}) SET n += $properties'')
      (VMap [(''id'', VStr (ID alice2)), (''properties'', VMap (Properties alice2))]) []
      = (Inr noRows, [VMap [(''id'', VStr (ID alice2)), (''properties'', VMap (Properties alice2))]])"
    by (simp add: recording_def)
  have r2: "sessionRun recording None
      (relationshipAddQuery (applyOptions [WithMergeMode MergeModeUpdate]) (knows alice bob))
      (VMap [(''sourceId'', VStr (ID (Source (knows alice bob)))),
             (''targetId'', VStr (ID (Target (knows alice bob)))),
             (''properties'', VMap (RelProperties (knows alice bob)))]) []
      = (Inr noRows, [VMap [(''sourceId'', VStr (ID (Source (knows alice bob)))),
             (''targetId'', VStr (ID (Target (knows alice bob)))),
             (''properties'', VMap (RelProperties (knows alice bob)))]])"
    by (simp add: recording_def)
  have u1: "fst (UpdateNode recording store ''1'' [(''b'', VInt 2)] [] []) =
       Some (Plain ''node 1 not found'')"
    by (simp add: UpdateNode_def store_def recording_def noRows_def)
  have u2: "fst (UpdateRelationship recording store ''1'' ''2'' ''KNOWS'' [] [] []) =
       Some (Plain ''relationship 1-KNOWS->2 not found'')"
    by (simp add: UpdateRelationship_def store_def recording_def noRows_def)
  from Add_update_mode_ignores_missing_entity [OF d m r1 r2] d m u1 u2
  show ?thesis by simp
qed

section \<open>Properties of the schema refresh\<close>

text \<open>
  \<^bold>\<open>Claim C9\<close>. When the three metadata queries of \<open>RefreshSchema\<close> succeed, the
  refresh succeeds whatever the constraint query and the index query do. The
  node-property, relationship-property and relationship parts of the snapshot
  are built from the three results, the snapshot is stored together with its
  rendering, and a failed constraint query (index query) leaves the empty list
  under \<^verbatim>\<open>constraint\<close> (\<^verbatim>\<open>index\<close>) in the snapshot's metadata.
\<close>

theorem RefreshSchema_metadata_best_effort:
  assumes "Query w n nodePropsQuery (VMap [(''EXCLUDED_LABELS'', excludedLabels)]) b
             = (Inr nodeResult, b1)"
    and "Query w n relPropsQuery (VMap [(''EXCLUDED_LABELS'', excludedRels)]) b1
             = (Inr relPropsResult, b2)"
    and "Query w n relQuery (VMap [(''EXCLUDED_LABELS'', excludedLabels)]) b2
             = (Inr relsResult, b3)"
    and "Query w n ''SHOW CONSTRAINTS'' VNil b3 = (constraintResult, b4)"
    and "Query w n indexQuery VNil b4 = (indexResult, b5)"
    and "RefreshSchema w n b = (err, n', b')"
  shows "err = None \<and> b' = b5
     \<and> node_props (structuredSchema n') = collectProps ''labels'' (records nodeResult)
     \<and> rel_props (structuredSchema n') = collectProps ''type'' (records relPropsResult)
     \<and> relationships (structuredSchema n') = collectRelationships (records relsResult)
     \<and> schemaCache n' = formatSchema w (enhancedSchema n) (structuredSchema n')
     \<and> (isl constraintResult \<longrightarrow> map_of (metadata (structuredSchema n')) ''constraint'' = Some [])
     \<and> (isl indexResult \<longrightarrow> map_of (metadata (structuredSchema n')) ''index'' = Some [])"
proof -
  from assms(1) have d: "driver n"
    by (auto simp: Query_def split: if_splits)
  from assms(6) [symmetric] d assms(1-5) show ?thesis
    by (auto simp: RefreshSchema_def Let_def isl_def)
qed

lemma schema_queries_differ:
  "nodePropsQuery \<noteq> ''SHOW CONSTRAINTS''" "nodePropsQuery \<noteq> indexQuery"
  "relPropsQuery \<noteq> ''SHOW CONSTRAINTS''" "relPropsQuery \<noteq> indexQuery"
  "relPropsQuery \<noteq> nodePropsQuery"
  "relQuery \<noteq> ''SHOW CONSTRAINTS''" "relQuery \<noteq> indexQuery" "relQuery \<noteq> nodePropsQuery"
  "relQuery \<noteq> relPropsQuery" "indexQuery \<noteq> ''SHOW CONSTRAINTS''"
  by (simp_all add: nodePropsQuery_def relPropsQuery_def relQuery_def indexQuery_def)

theorem RefreshSchema_metadata_best_effort_witness:
  "fst (Query restricted store ''SHOW CONSTRAINTS'' VNil 3) =
     Inl (ErrQueryExecution ''permission denied'')
   \<and> fst (Query restricted store indexQuery VNil 4) =
     Inl (ErrQueryExecution ''permission denied'')
   \<and> fst (RefreshSchema restricted store 0) = None
   \<and> node_props (structuredSchema (fst (snd (RefreshSchema restricted store 0)))) =
       [(''Person'', VList [VMap [(''property'', VStr ''name''), (''type'', VStr ''STRING'')]])]
   \<and> rel_props (structuredSchema (fst (snd (RefreshSchema restricted store 0)))) =
       [(''KNOWS'', VList [VMap [(''property'', VStr ''since''), (''type'', VStr ''DATE'')]])]
   \<and> relationships (structuredSchema (fst (snd (RefreshSchema restricted store 0)))) =
       [topologyOutput]
   \<and> map_of (metadata (structuredSchema (fst (snd (RefreshSchema restricted store 0)))))
        ''constraint'' = Some []
   \<and> map_of (metadata (structuredSchema (fst (snd (RefreshSchema restricted store 0)))))
        ''index'' = Some []
   \<and> schemaCache (fst (snd (RefreshSchema restricted store 0))) = ''Node properties:''"
proof -
  have h1: "Query restricted store nodePropsQuery (VMap [(''EXCLUDED_LABELS'', excludedLabels)]) 0
      = (Inr \<lparr>records = [personRow], summaryQuery = nodePropsQuery,
               summaryParameters = VMap [(''EXCLUDED_LABELS'', excludedLabels)]\<rparr>, 1)"
    by (simp add: Query_def store_def restricted_def schema_queries_differ)
  have h2: "Query restricted store relPropsQuery (VMap [(''EXCLUDED_LABELS'', excludedRels)]) 1
      = (Inr \<lparr>records = [knowsRow], summaryQuery = relPropsQuery,
               summaryParameters = VMap [(''EXCLUDED_LABELS'', excludedRels)]\<rparr>, 2)"
    by (simp add: Query_def store_def restricted_def schema_queries_differ)
  have h3: "Query restricted store relQuery (VMap [(''EXCLUDED_LABELS'', excludedLabels)]) 2
      = (Inr \<lparr>records = [topologyRow], summaryQuery = relQuery,
               summaryParameters = VMap [(''EXCLUDED_LABELS'', excludedLabels)]\<rparr>, 3)"
    by (simp add: Query_def store_def restricted_def schema_queries_differ)
  have h4: "Query restricted store ''SHOW CONSTRAINTS'' VNil 3
      = (Inl (ErrQueryExecution ''permission denied''), 4)"
    by (simp add: Query_def store_def restricted_def)
  have h5: "Query restricted store indexQuery VNil 4
      = (Inl (ErrQueryExecution ''permission denied''), 5)"
    by (simp add: Query_def store_def restricted_def schema_queries_differ)
  have r: "RefreshSchema restricted store 0 =
      (fst (RefreshSchema restricted store 0), fst (snd (RefreshSchema restricted store 0)),
       snd (snd (RefreshSchema restricted store 0)))"
    by simp
  from RefreshSchema_metadata_best_effort [OF h1 h2 h3 h4 h5 r] h4 h5
  show ?thesis
    by (simp add: collectProps_def collectRelationships_def personRow_def knowsRow_def
        topologyRow_def restricted_def)
qed

end
